theory Spec2Isabelle
  imports Main "HOL-Library.AList"
begin

section \<open>Values of the object graph\<close>

text \<open>
  The functions \<open>getValue\<close>, \<open>setValue\<close> and \<open>getFunction\<close> of
  \<^verbatim>\<open>Services/Utilities.ts\<close> work on values of type \<^verbatim>\<open>any\<close>. A value is
  \<^verbatim>\<open>undefined\<close>, \<^verbatim>\<open>null\<close>, a boolean, a number, a string, a plain object or a
  function. An object is the ordered list of its own properties; a function is an
  identifier of its body together with its own properties.

  Boundaries of the embedding:
  \<^item> numbers are integers plus \<open>NaN\<close>; only their truthiness matters here;
  \<^item> a property read looks at own properties only, so properties inherited from the
    prototypes of the runtime (\<^verbatim>\<open>toString\<close>, \<^verbatim>\<open>constructor\<close>, ...) read as
    \<^verbatim>\<open>undefined\<close>;
  \<^item> an object graph is a finite tree: no object is held by two slots, and there is no
    cycle. The in-place mutation done by \<open>setValue\<close> is rendered by returning the
    root as it is after the call;
  \<^item> the source file carries no \<^verbatim>\<open>"use strict"\<close> directive, so an assignment to a
    property of a primitive value is silently ignored.
\<close>

datatype jsval =
    Undefined
  | Null
  | Bool bool
  | Num int
  | NaN
  | Str string
  | Obj "(string \<times> jsval) list"
  | Fun nat "(string \<times> jsval) list"

datatype error = TypeError

text \<open>The test \<^verbatim>\<open>if (x)\<close>: every value is truthy except \<^verbatim>\<open>undefined\<close>, \<^verbatim>\<open>null\<close>,
  \<^verbatim>\<open>false\<close>, \<^verbatim>\<open>0\<close>, \<^verbatim>\<open>NaN\<close> and the empty string.\<close>

fun truthy :: "jsval \<Rightarrow> bool" where
  "truthy Undefined = False"
| "truthy Null = False"
| "truthy (Bool b) = b"
| "truthy (Num n) = (n \<noteq> 0)"
| "truthy NaN = False"
| "truthy (Str s) = (s \<noteq> [])"
| "truthy (Obj ps) = True"
| "truthy (Fun f ps) = True"

text \<open>The test \<^verbatim>\<open>x == null\<close> holds of \<^verbatim>\<open>null\<close> and \<^verbatim>\<open>undefined\<close> only.\<close>

fun eq_null :: "jsval \<Rightarrow> bool" where
  "eq_null Undefined = True"
| "eq_null Null = True"
| "eq_null v = False"

fun is_function :: "jsval \<Rightarrow> bool" where
  "is_function (Fun f ps) = True"
| "is_function v = False"

text \<open>A mapping in the sense of the specification: a value that holds writable own
  properties (a plain object, or a function used as a namespace).\<close>

fun is_mapping :: "jsval \<Rightarrow> bool" where
  "is_mapping (Obj ps) = True"
| "is_mapping (Fun f ps) = True"
| "is_mapping v = False"

subsection \<open>Property access\<close>

text \<open>A string has the own properties \<^verbatim>\<open>length\<close> and one per index, named by the
  canonical decimal numeral of the index.\<close>

definition is_digit :: "char \<Rightarrow> bool" where
  "is_digit c = (c \<in> set ''0123456789'')"

definition index_of_key :: "string \<Rightarrow> nat option" where
  "index_of_key k =
     (if k \<noteq> [] \<and> list_all is_digit k \<and> (k = ''0'' \<or> hd k \<noteq> CHR ''0'')
      then Some (foldl (\<lambda>n c. 10 * n + (of_char c - 48)) 0 k)
      else None)"

definition str_prop :: "string \<Rightarrow> string \<Rightarrow> jsval" where
  "str_prop s k =
     (if k = ''length'' then Num (int (length s))
      else case index_of_key k of
             None \<Rightarrow> Undefined
           | Some i \<Rightarrow> if i < length s then Str [s ! i] else Undefined)"

definition own :: "(string \<times> jsval) list \<Rightarrow> string \<Rightarrow> jsval" where
  "own ps k = (case map_of ps k of None \<Rightarrow> Undefined | Some v \<Rightarrow> v)"

text \<open>The read \<^verbatim>\<open>object[property]\<close>. On \<^verbatim>\<open>undefined\<close> and \<^verbatim>\<open>null\<close> it raises.\<close>

fun getProp :: "jsval \<Rightarrow> string \<Rightarrow> error + jsval" where
  "getProp Undefined k = Inl TypeError"
| "getProp Null k = Inl TypeError"
| "getProp (Obj ps) k = Inr (own ps k)"
| "getProp (Fun f ps) k = Inr (own ps k)"
| "getProp (Str s) k = Inr (str_prop s k)"
| "getProp (Bool b) k = Inr Undefined"
| "getProp (Num n) k = Inr Undefined"
| "getProp NaN k = Inr Undefined"

text \<open>The write \<^verbatim>\<open>object[property] = value\<close>, returning the receiver after the write.
  An existing key keeps its place, a new key goes last. On \<^verbatim>\<open>undefined\<close> and
  \<^verbatim>\<open>null\<close> it raises; on another primitive it does nothing.\<close>

fun setProp :: "jsval \<Rightarrow> string \<Rightarrow> jsval \<Rightarrow> error + jsval" where
  "setProp Undefined k v = Inl TypeError"
| "setProp Null k v = Inl TypeError"
| "setProp (Obj ps) k v = Inr (Obj (AList.update k v ps))"
| "setProp (Fun f ps) k v = Inr (Fun f (AList.update k v ps))"
| "setProp (Str s) k v = Inr (Str s)"
| "setProp (Bool b) k v = Inr (Bool b)"
| "setProp (Num n) k v = Inr (Num n)"
| "setProp NaN k v = Inr NaN"

subsection \<open>String operations of the runtime\<close>

text \<open>\<^verbatim>\<open>s.split(c)\<close> for a one-character separator: the pieces between the
  separators, empty pieces included; never an empty list.\<close>

fun split :: "string \<Rightarrow> char \<Rightarrow> string list" where
  "split [] c = [[]]"
| "split (x # xs) c =
     (if x = c then [] # split xs c
      else case split xs c of
             [] \<Rightarrow> [[x]]
           | t # ts \<Rightarrow> (x # t) # ts)"

text \<open>\<^verbatim>\<open>s.indexOf(c)\<close> and \<^verbatim>\<open>s.lastIndexOf(c)\<close>: \<open>-1\<close> when \<open>c\<close> does not occur.\<close>

fun indexOf :: "string \<Rightarrow> char \<Rightarrow> int" where
  "indexOf [] c = - 1"
| "indexOf (x # xs) c =
     (if x = c then 0
      else let r = indexOf xs c in if r < 0 then - 1 else r + 1)"

definition lastIndexOf :: "string \<Rightarrow> char \<Rightarrow> int" where
  "lastIndexOf s c =
     (let r = indexOf (rev s) c in if r < 0 then - 1 else int (length s) - 1 - r)"

text \<open>\<^verbatim>\<open>s.substr(start, len)\<close> for a start that is not negative.\<close>

definition substr :: "string \<Rightarrow> nat \<Rightarrow> int \<Rightarrow> string" where
  "substr s start len = take (nat len) (drop start s)"

section \<open>getValue\<close>

text \<open>The loop of \<open>getValue\<close> over the remaining properties.\<close>

fun getValue_loop :: "jsval \<Rightarrow> string list \<Rightarrow> error + jsval" where
  "getValue_loop object [] = Inr object"
| "getValue_loop object (property # properties) =
     (case getProp object property of
        Inl e \<Rightarrow> Inl e
      | Inr object' \<Rightarrow>
          if eq_null object' then Inr Null
          else getValue_loop object' properties)"

text \<open>\<open>propertyString\<close> is \<open>None\<close> when the caller passes \<^verbatim>\<open>null\<close> or
  \<^verbatim>\<open>undefined\<close>.\<close>

definition getValue :: "jsval \<Rightarrow> string option \<Rightarrow> error + jsval" where
  "getValue object propertyString =
     (if \<not> truthy object then Inr Null
      else case propertyString of
             None \<Rightarrow> Inr Null
           | Some s \<Rightarrow>
               if s = [] then Inr Null
               else (case getProp object s of
                       Inl e \<Rightarrow> Inl e
                     | Inr direct \<Rightarrow>
                         if truthy direct then Inr direct
                         else getValue_loop object (split s CHR ''.'')))"

section \<open>setValue\<close>

text \<open>The loop of \<open>setValue\<close> over the remaining properties; the last one is the one
  with nothing after it. The result is \<open>object\<close> after the mutation: where the source
  descends into \<^verbatim>\<open>object[property]\<close> and mutates it in place, the mutated child is put
  back into its slot.\<close>

fun setValue_loop :: "jsval \<Rightarrow> string list \<Rightarrow> jsval \<Rightarrow> bool \<Rightarrow> error + jsval" where
  "setValue_loop object [] v inst = Inr object"
| "setValue_loop object [property] v inst = setProp object property v"
| "setValue_loop object (property # next # rest) v inst =
     (case getProp object property of
        Inl e \<Rightarrow> Inl e
      | Inr child \<Rightarrow>
          if truthy child then
            (case setValue_loop child (next # rest) v inst of
               Inl e \<Rightarrow> Inl e
             | Inr child' \<Rightarrow> setProp object property child')
          else if inst then
            (case setProp object property (Obj []) of
               Inl e \<Rightarrow> Inl e
             | Inr object' \<Rightarrow>
                 (case getProp object' property of
                    Inl e \<Rightarrow> Inl e
                  | Inr fresh \<Rightarrow>
                      (case setValue_loop fresh (next # rest) v inst of
                         Inl e \<Rightarrow> Inl e
                       | Inr fresh' \<Rightarrow> setProp object' property fresh')))
          else Inr object)"

text \<open>\<open>instantiateObjects\<close> is \<open>None\<close> when the argument is left out.\<close>

definition setValue :: "jsval \<Rightarrow> string option \<Rightarrow> jsval \<Rightarrow> bool option \<Rightarrow> error + jsval" where
  "setValue object propertyString v instantiateObjects =
     (if \<not> truthy object then Inr object
      else case propertyString of
             None \<Rightarrow> Inr object
           | Some s \<Rightarrow>
               if s = [] then Inr object
               else setValue_loop object (split s CHR ''.'') v
                      (case instantiateObjects of None \<Rightarrow> True | Some b \<Rightarrow> b))"

section \<open>getFunction\<close>

text \<open>What \<open>getFunction\<close> returns: a value as found (\<^verbatim>\<open>null\<close> or the raw function), or
  a function bound to a receiver.\<close>

datatype fnref = Plain jsval | Bound jsval jsval

text \<open>Modelled from the spec: \<^verbatim>\<open>_.bind\<close> belongs to the Underscore library, which is
  not among the sources. It gives a callable that, when invoked, calls the raw callable
  with the given context object as its receiver; the library refuses a first argument
  that is not a function.\<close>

definition underscore_bind :: "jsval \<Rightarrow> jsval \<Rightarrow> error + fnref" where
  "underscore_bind fn context_obj =
     (if is_function fn then Inr (Bound fn context_obj) else Inl TypeError)"

text \<open>A call \<^verbatim>\<open>f()\<close> of what \<open>getFunction\<close> returned. \<open>code i this\<close> is what the body of
  function \<open>i\<close> returns when run with receiver \<open>this\<close>; \<open>this0\<close> is the receiver the
  runtime supplies to a call without an explicit one.\<close>

fun invoke :: "(nat \<Rightarrow> jsval \<Rightarrow> error + jsval) \<Rightarrow> jsval \<Rightarrow> fnref \<Rightarrow> error + jsval" where
  "invoke code this0 (Bound (Fun i ps) receiver) = code i receiver"
| "invoke code this0 (Plain (Fun i ps)) = code i this0"
| "invoke code this0 r = Inl TypeError"

text \<open>\<open>window\<close> is the global object. \<open>inferContext\<close> is \<open>None\<close> when the argument is
  left out or \<^verbatim>\<open>null\<close>.\<close>

definition getFunction ::
  "jsval \<Rightarrow> jsval \<Rightarrow> string option \<Rightarrow> bool option \<Rightarrow> error + fnref" where
  "getFunction window scopeOrPropertyString propertyString0 inferContext0 =
     (let inferContext = (case inferContext0 of None \<Rightarrow> True | Some b \<Rightarrow> b);
          scope = (case scopeOrPropertyString of Str s \<Rightarrow> window | _ \<Rightarrow> scopeOrPropertyString);
          propertyString =
            (case scopeOrPropertyString of Str s \<Rightarrow> Some s | _ \<Rightarrow> propertyString0)
      in (case getValue scope propertyString of
            Inl e \<Rightarrow> Inl e
          | Inr fn \<Rightarrow>
              if \<not> truthy fn then Inr (Plain Null)
              else if inferContext then
                (case propertyString of
                   None \<Rightarrow> Inl TypeError
                 | Some s \<Rightarrow>
                     (case (if indexOf s CHR ''.'' > - 1
                            then getValue scope
                                   (Some (substr s 0 (lastIndexOf s CHR ''.'')))
                            else Inr scope) of
                        Inl e \<Rightarrow> Inl e
                      | Inr context_obj \<Rightarrow> underscore_bind fn context_obj))
              else Inr (Plain fn)))"

section \<open>Predicates on a descent\<close>

text \<open>The predicates below walk a root along the properties of a path the way the two
  descents do. They name the situations the properties speak about and are used in their
  hypotheses only.\<close>



text \<open>The descent of \<open>setValue\<close> comes to a property before the last that holds no
  truthy value: an absent property, \<^verbatim>\<open>null\<close>, or one of the falsy scalars.\<close>

fun missing_intermediate :: "jsval \<Rightarrow> string list \<Rightarrow> bool" where
  "missing_intermediate object [] = False"
| "missing_intermediate object [property] = False"
| "missing_intermediate object (property # next # rest) =
     (case getProp object property of
        Inl e \<Rightarrow> False
      | Inr child \<Rightarrow>
          if truthy child then missing_intermediate child (next # rest) else True)"

text \<open>The descent of \<open>getValue\<close> comes to a property before the last that holds
  \<^verbatim>\<open>null\<close> or is absent.\<close>

fun null_intermediate :: "jsval \<Rightarrow> string list \<Rightarrow> bool" where
  "null_intermediate object [] = False"
| "null_intermediate object [property] = False"
| "null_intermediate object (property # next # rest) =
     (case getProp object property of
        Inl e \<Rightarrow> False
      | Inr child \<Rightarrow>
          if eq_null child then True else null_intermediate child (next # rest))"





text \<open>The body \<^verbatim>\<open>return this.x\<close>, for the functions of the example graphs.\<close>

definition returns_this_x :: "nat \<Rightarrow> jsval \<Rightarrow> error + jsval" where
  "returns_this_x i this = getProp this ''x''"

section \<open>Basic facts\<close>

subsection \<open>Values and properties\<close>

lemma truthy_not_null: "truthy v \<Longrightarrow> \<not> eq_null v"
  by (cases v) auto


lemma getProp_total: "\<not> eq_null object \<Longrightarrow> \<exists>v. getProp object k = Inr v"
  by (cases object) auto







lemma getProp_scalar:
  "\<not> is_mapping object \<Longrightarrow> getProp object k = Inr child \<Longrightarrow> \<not> is_mapping child"
  by (cases object) (auto simp: str_prop_def split: option.splits if_splits)

subsection \<open>Strings\<close>


lemma split_no_sep: "c \<notin> set s \<Longrightarrow> split s c = [s]"
  by (induction s) auto




lemma indexOf_found: "c \<in> set s \<longleftrightarrow> - 1 < indexOf s c"
  by (induction s) (auto simp: Let_def)

lemma indexOf_first: "c \<notin> set xs \<Longrightarrow> indexOf (xs @ c # ys) c = int (length xs)"
  by (induction xs) (auto simp: Let_def)

lemma lastIndexOf_last:
  "c \<notin> set ys \<Longrightarrow> lastIndexOf (xs @ c # ys) c = int (length xs)"
  using indexOf_first [of c "rev ys" "rev xs"]
  by (simp add: lastIndexOf_def)

text \<open>The context path of the source is what stands before the last dot.\<close>

lemma substr_before_last:
  "c \<notin> set ys \<Longrightarrow> substr (xs @ c # ys) 0 (lastIndexOf (xs @ c # ys) c) = xs"
  by (simp add: lastIndexOf_last substr_def)

subsection \<open>The loop of getValue\<close>

lemma getValue_loop_total: "\<not> eq_null object \<Longrightarrow> \<exists>v. getValue_loop object ts = Inr v"
proof (induction ts arbitrary: object)
  case Nil
  then show ?case by simp
next
  case (Cons t ts)
  from Cons.prems obtain c where c: "getProp object t = Inr c"
    using getProp_total by blast
  show ?case
  proof (cases "eq_null c")
    case True
    with c show ?thesis by simp
  next
    case False
    with Cons.IH [of c] c show ?thesis by simp
  qed
qed

text \<open>\<open>getValue\<close> never raises.\<close>

lemma getValue_total: "\<exists>v. getValue object p = Inr v"
proof (cases "truthy object")
  case False
  then show ?thesis by (simp add: getValue_def)
next
  case True
  then have nn: "\<not> eq_null object" by (rule truthy_not_null)
  show ?thesis
  proof (cases p)
    case None
    then show ?thesis by (simp add: getValue_def)
  next
    case (Some s)
    from nn obtain d where d: "getProp object s = Inr d" using getProp_total by blast
    from nn obtain r where r: "getValue_loop object (split s CHR ''.'') = Inr r"
      using getValue_loop_total by blast
    from Some True d r show ?thesis by (simp add: getValue_def)
  qed
qed




lemma getValue_loop_scalar:
  "\<not> is_mapping object \<Longrightarrow> getValue_loop object ts = Inr r \<Longrightarrow> \<not> is_mapping r"
  by (induction ts arbitrary: object)
     (auto split: sum.splits if_splits dest: getProp_scalar)

text \<open>Nothing callable is found in a scalar, so a scope in which \<open>getValue\<close> finds a
  function is not a string, and \<open>getFunction\<close> takes it as the scope.\<close>

lemma getValue_function_scope:
  assumes "getValue scope p = Inr fn" and "is_function fn"
  shows "is_mapping scope"
proof (rule ccontr)
  assume sc: "\<not> is_mapping scope"
  from assms(2) have m: "is_mapping fn" by (cases fn) auto
  have "\<not> is_mapping fn"
  proof (cases "truthy scope \<and> (\<exists>s. p = Some s \<and> s \<noteq> [])")
    case False
    with assms(1) have "fn = Null"
      by (auto simp: getValue_def split: option.splits if_splits)
    then show ?thesis by simp
  next
    case True
    then obtain s where s: "p = Some s" "s \<noteq> []" "truthy scope" by blast
    then obtain d where d: "getProp scope s = Inr d"
      using getProp_total truthy_not_null by blast
    show ?thesis
    proof (cases "truthy d")
      case True
      with s d assms(1) have "fn = d" by (simp add: getValue_def)
      with sc d show ?thesis by (simp add: getProp_scalar)
    next
      case False
      with s d assms(1) have "getValue_loop scope (split s CHR ''.'') = Inr fn"
        by (simp add: getValue_def)
      with sc show ?thesis by (rule getValue_loop_scalar)
    qed
  qed
  with m show False by simp
qed

subsection \<open>The loop of setValue\<close>


text \<open>A descent that comes to an absent or \<^verbatim>\<open>null\<close> property before the last, going
  through values that are not \<^verbatim>\<open>null\<close>, comes to one without a truthy value.\<close>

lemma null_intermediate_missing:
  "null_intermediate object ts \<Longrightarrow> missing_intermediate object ts"
proof (induction object ts rule: null_intermediate.induct)
  case (3 object property "next" rest)
  then show ?case
    by (cases "getProp object property") (auto split: if_splits dest: truthy_not_null)
qed simp_all








section \<open>Writing and reading back (C1)\<close>


text \<open>A condition on the intermediate segments that only asks them to exist, or objects
  to be instantiated, is not enough either. A truthy
  scalar on the way is descended into and the assignment on it is lost; a segment that
  exists with a falsy value counts as missing, so without instantiation nothing is
  written; and \<^verbatim>\<open>undefined\<close> is read back as \<^verbatim>\<open>null\<close>.\<close>

lemma roundtrip_preconditions:
  "setValue (Obj [(''a'', Num 5)]) (Some ''a.b'') (Num 1) (Some True) = Inr (Obj [(''a'', Num 5)]) \<and>
   getValue (Obj [(''a'', Num 5)]) (Some ''a.b'') = Inr Null \<and>
   setValue (Obj [(''a'', Num 0)]) (Some ''a.b'') (Num 1) (Some False) = Inr (Obj [(''a'', Num 0)]) \<and>
   getValue (Obj [(''a'', Num 0)]) (Some ''a.b'') = Inr Null \<and>
   setValue (Obj []) (Some ''a'') Undefined (Some True) = Inr (Obj [(''a'', Undefined)]) \<and>
   getValue (Obj [(''a'', Undefined)]) (Some ''a'') = Inr Null"
  by (simp add: setValue_def getValue_def own_def)



section \<open>The exact key read first (C2)\<close>

text \<open>For a key without a dot the value stored under it is returned whether it is truthy
  or not, \<^verbatim>\<open>undefined\<close> becoming \<^verbatim>\<open>null\<close>.\<close>

lemma getValue_undotted:
  assumes "CHR ''.'' \<notin> set s" and "s \<noteq> []"
  shows "getValue (Obj ps) (Some s) = Inr (if eq_null (own ps s) then Null else own ps s)"
proof (cases "truthy (own ps s)")
  case True
  with assms(2) show ?thesis by (simp add: getValue_def truthy_not_null)
next
  case False
  with assms show ?thesis by (simp add: getValue_def split_no_sep)
qed

text \<open>
  C2. For a root that has an exact key equal to the full path string, \<open>getValue\<close> is to
  return the value stored under that key, before any descent along the dots. The source
  tests the stored value for truthiness, not the key for presence: the root
  \<^verbatim>\<open>{ "a.b": 0 }\<close> holds \<open>0\<close> under the key \<^verbatim>\<open>"a.b"\<close>, and \<open>getValue\<close> returns
  \<^verbatim>\<open>null\<close> for the path \<^verbatim>\<open>"a.b"\<close>, while for the undotted key of \<^verbatim>\<open>{ "a": 0 }\<close>
  it returns \<open>0\<close>.
\<close>

theorem getValue_dotted_key_falsy:
  "getValue (Obj [(''a.b'', Num 0)]) (Some ''a.b'') = Inr Null \<and>
   getValue (Obj [(''a'', Num 0)]) (Some ''a'') = Inr (Num 0)"
  by (simp add: getValue_def own_def)

section \<open>Writing without instantiation (C3)\<close>



section \<open>Reading degrades to null (C4)\<close>




section \<open>Missing intermediate objects are created (C5)\<close>

text \<open>
  C5. On the empty root, \<^verbatim>\<open>setValue({}, "a.b.c", 1, true)\<close> gives
  \<^verbatim>\<open>{ a: { b: { c: 1 } } }\<close>: each missing property before the last becomes a new
  empty object, and the value is assigned under the last one. The same holds when the
  flag is left out.
\<close>

theorem setValue_materializes:
  "setValue (Obj []) (Some ''a.b.c'') (Num 1) (Some True) =
     Inr (Obj [(''a'', Obj [(''b'', Obj [(''c'', Num 1)])])]) \<and>
   setValue (Obj []) (Some ''a.b.c'') (Num 1) None =
     Inr (Obj [(''a'', Obj [(''b'', Obj [(''c'', Num 1)])])])"
  by (simp add: setValue_def own_def)

section \<open>Context inference of getFunction (C6)\<close>

text \<open>
  C6. With context inference (the default), where \<open>getValue\<close> finds a function \<open>fn\<close> at
  the path \<open>s\<close> of the scope, \<open>getFunction\<close> returns \<open>fn\<close> bound to a context object. When
  \<open>s\<close> contains a dot, the context is what \<open>getValue\<close> finds in the scope at the part of
  \<open>s\<close> before its last dot; when it contains none, the context is the scope itself. A
  call of the result runs the body of \<open>fn\<close> with the context as receiver, whatever
  receiver the runtime would supply. For the scope
  \<^verbatim>\<open>{ ns: { sub: { fn: <returns this.x>, x: 5 } } }\<close> and the path \<^verbatim>\<open>"ns.sub.fn"\<close> the
  call returns \<open>5\<close>.
\<close>

theorem getFunction_infers_context:
  assumes "getValue scope (Some s) = Inr fn" and "is_function fn"
    and "ic = None \<or> ic = Some True"
  shows "\<exists>i ps ctx. fn = Fun i ps \<and>
     getFunction window scope (Some s) ic = Inr (Bound (Fun i ps) ctx) \<and>
     (if CHR ''.'' \<in> set s
      then \<exists>pre last. s = pre @ CHR ''.'' # last \<and> CHR ''.'' \<notin> set last \<and>
             getValue scope (Some pre) = Inr ctx
      else ctx = scope) \<and>
     (\<forall>code this0. invoke code this0 (Bound (Fun i ps) ctx) = code i ctx)"
proof -
  from assms(2) obtain i ps where fn: "fn = Fun i ps" by (cases fn) auto
  from assms(1,2) have "is_mapping scope" by (rule getValue_function_scope)
  then have scope: "(case scope of Str t \<Rightarrow> window | _ \<Rightarrow> scope) = scope"
    "(case scope of Str t \<Rightarrow> Some t | _ \<Rightarrow> Some s) = Some s"
    by (cases scope; simp)+
  from assms(3) have ic: "(case ic of None \<Rightarrow> True | Some b \<Rightarrow> b)" by auto
  show ?thesis
  proof (cases "CHR ''.'' \<in> set s")
    case False
    then have "\<not> indexOf s CHR ''.'' > - 1" by (simp add: indexOf_found)
    with assms(1) fn scope ic
    have "getFunction window scope (Some s) ic = Inr (Bound (Fun i ps) scope)"
      by (simp add: getFunction_def underscore_bind_def)
    with fn False show ?thesis by simp
  next
    case True
    then obtain pre last where dec: "s = pre @ CHR ''.'' # last" "CHR ''.'' \<notin> set last"
      using split_list_last [of "CHR ''.''" s] by blast
    then have pre: "substr s 0 (lastIndexOf s CHR ''.'') = pre"
      by (simp add: substr_before_last)
    obtain ctx where ctx: "getValue scope (Some pre) = Inr ctx"
      using getValue_total by blast
    from True have "indexOf s CHR ''.'' > - 1" by (simp add: indexOf_found)
    with assms(1) fn scope ic pre ctx
    have "getFunction window scope (Some s) ic = Inr (Bound (Fun i ps) ctx)"
      by (simp add: getFunction_def underscore_bind_def)
    with fn True dec ctx show ?thesis by auto
  qed
qed

theorem getFunction_infers_context_witness:
  "getValue (Obj [(''ns'', Obj [(''sub'', Obj [(''fn'', Fun 0 []), (''x'', Num 5)])])])
     (Some ''ns.sub.fn'') = Inr (Fun 0 []) \<and>
   getFunction (Obj []) (Obj [(''ns'', Obj [(''sub'', Obj [(''fn'', Fun 0 []), (''x'', Num 5)])])])
     (Some ''ns.sub.fn'') None =
     Inr (Bound (Fun 0 []) (Obj [(''fn'', Fun 0 []), (''x'', Num 5)])) \<and>
   getValue (Obj [(''ns'', Obj [(''sub'', Obj [(''fn'', Fun 0 []), (''x'', Num 5)])])])
     (Some ''ns.sub'') = Inr (Obj [(''fn'', Fun 0 []), (''x'', Num 5)]) \<and>
   invoke returns_this_x (Obj [])
     (Bound (Fun 0 []) (Obj [(''fn'', Fun 0 []), (''x'', Num 5)])) = Inr (Num 5) \<and>
   getFunction (Obj []) (Obj [(''fn'', Fun 0 []), (''x'', Num 5)]) (Some ''fn'') (Some True) =
     Inr (Bound (Fun 0 []) (Obj [(''fn'', Fun 0 []), (''x'', Num 5)]))"
  using getFunction_infers_context
    [of "Obj [(''ns'', Obj [(''sub'', Obj [(''fn'', Fun 0 []), (''x'', Num 5)])])]"
        "''ns.sub.fn''" "Fun 0 []" None "Obj []"]
    getFunction_infers_context
    [of "Obj [(''fn'', Fun 0 []), (''x'', Num 5)]" "''fn''" "Fun 0 []" "Some True" "Obj []"]
  by (simp add: getValue_def getFunction_def underscore_bind_def own_def returns_this_x_def
      lastIndexOf_def substr_def)

section \<open>The exact key is read but never written (C7)\<close>



section \<open>Descent through a scalar when reading (C8)\<close>




section \<open>getFunction without context inference (C9)\<close>

text \<open>
  C9. Without context inference, where \<open>getValue\<close> finds a function \<open>fn\<close> at the path \<open>s\<close>
  of the scope, \<open>getFunction\<close> returns \<open>fn\<close> itself, not bound. A call of the result
  without an explicit receiver runs the body of \<open>fn\<close> with the receiver the runtime
  supplies, not with the object that owns \<open>fn\<close>: in the example of C6 the call does not
  read \<open>x\<close> from \<^verbatim>\<open>ns.sub\<close>.
\<close>

theorem getFunction_raw:
  assumes "getValue scope (Some s) = Inr fn" and "is_function fn"
  shows "\<exists>i ps. fn = Fun i ps \<and>
     getFunction window scope (Some s) (Some False) = Inr (Plain fn) \<and>
     (\<forall>code this0. invoke code this0 (Plain fn) = code i this0)"
proof -
  from assms(2) obtain i ps where fn: "fn = Fun i ps" by (cases fn) auto
  from assms(1,2) have "is_mapping scope" by (rule getValue_function_scope)
  then have scope: "(case scope of Str t \<Rightarrow> window | _ \<Rightarrow> scope) = scope"
    "(case scope of Str t \<Rightarrow> Some t | _ \<Rightarrow> Some s) = Some s"
    by (cases scope; simp)+
  with assms(1) fn
  have "getFunction window scope (Some s) (Some False) = Inr (Plain fn)"
    by (simp add: getFunction_def)
  with fn show ?thesis by simp
qed

theorem getFunction_raw_witness:
  "getValue (Obj [(''ns'', Obj [(''sub'', Obj [(''fn'', Fun 0 []), (''x'', Num 5)])])])
     (Some ''ns.sub.fn'') = Inr (Fun 0 []) \<and>
   getFunction (Obj []) (Obj [(''ns'', Obj [(''sub'', Obj [(''fn'', Fun 0 []), (''x'', Num 5)])])])
     (Some ''ns.sub.fn'') (Some False) = Inr (Plain (Fun 0 [])) \<and>
   invoke returns_this_x (Obj []) (Plain (Fun 0 [])) = Inr Undefined \<and>
   invoke returns_this_x Undefined (Plain (Fun 0 [])) = Inl TypeError"
  using getFunction_raw
    [of "Obj [(''ns'', Obj [(''sub'', Obj [(''fn'', Fun 0 []), (''x'', Num 5)])])]"
        "''ns.sub.fn''" "Fun 0 []" "Obj []"]
  by (simp add: getValue_def getFunction_def own_def returns_this_x_def)

section \<open>Descent through a scalar when writing (C10)\<close>




end
